theory Spec2Isabelle
  imports Complex_Main "HOL-Library.Multiset"
begin

section \<open>Python values used by the example\<close>

text \<open>
  The exceptions that the modelled code paths of \<^verbatim>\<open>example.py\<close> can raise.
\<close>

datatype py_error = ValueError | KeyError | OverflowError | ZeroDivisionError

subsection \<open>Integers that pass through a double\<close>

text \<open>
  Python's \<^verbatim>\<open>int\<close> is unbounded and is modelled by \<open>int\<close>/\<open>nat\<close>. A Python
  \<^verbatim>\<open>float\<close> is an IEEE-754 double; a finite double is modelled by the real
  number it denotes. Whenever an \<^verbatim>\<open>int\<close> meets a \<^verbatim>\<open>float\<close>
  (\<^verbatim>\<open>math.log2(n)\<close>, \<^verbatim>\<open>x * n\<close>) CPython first converts the integer with
  \<^verbatim>\<open>PyLong_AsDouble\<close>: the nearest value with a 53-bit significand, ties to the
  even significand, and \<^verbatim>\<open>OverflowError\<close> from \<open>2 ^ 1024\<close> on.
\<close>

fun bit_length :: "nat \<Rightarrow> nat" where
  "bit_length n = (if n = 0 then 0 else Suc (bit_length (n div 2)))"

declare bit_length.simps [simp del]

definition round_half_even :: "nat \<Rightarrow> nat \<Rightarrow> nat" where
  \<comment> \<open>the integer nearest to \<open>n / 2 ^ s\<close>, a tie going to the even neighbour\<close>
  "round_half_even n s =
     (let q = n div 2 ^ s; r = n mod 2 ^ s
      in if 2 * r < 2 ^ s then q
         else if 2 ^ s < 2 * r then q + 1
         else if even q then q else q + 1)"

definition round_sig53 :: "nat \<Rightarrow> nat" where
  \<comment> \<open>\<open>n\<close> rounded to 53 significant bits\<close>
  "round_sig53 n =
     (let k = bit_length n
      in if k \<le> 53 then n else round_half_even n (k - 53) * 2 ^ (k - 53))"

definition PyLong_AsDouble :: "int \<Rightarrow> py_error + real" where
  "PyLong_AsDouble i =
     (let m = round_sig53 (nat \<bar>i\<bar>)
      in if 2 ^ 1024 \<le> m then Inl OverflowError
         else Inr (if i < 0 then - real m else real m))"

subsection \<open>\<^verbatim>\<open>math.log2\<close>, \<^verbatim>\<open>math.ceil\<close>, \<^verbatim>\<open>float * int\<close>\<close>

text \<open>
  \<^verbatim>\<open>math.log2\<close> of an \<^verbatim>\<open>int\<close> raises \<^verbatim>\<open>ValueError\<close> (math domain error) for
  \<open>n \<le> 0\<close>; otherwise it takes the logarithm of the double nearest to \<open>n\<close> (for an
  integer beyond the double range CPython splits off the exponent first, which gives
  the logarithm of the same rounded value). The C library's own rounding of the
  logarithm is not modelled: the result is the exact logarithm of the rounded
  argument. The library is exact at powers of two, and the evaluations below are at
  arguments whose logarithm is an integer or far from one. Just above a large power
  of two the library's result can round down to the integer, which this model does
  not show; it can only make the rounded row count smaller.
\<close>

definition math_log2 :: "int \<Rightarrow> py_error + real" where
  "math_log2 n =
     (if n \<le> 0 then Inl ValueError
      else Inr (log 2 (real (round_sig53 (nat n)))))"

definition math_ceil :: "real \<Rightarrow> int" where
  "math_ceil x = \<lceil>x\<rceil>"

text \<open>
  \<^verbatim>\<open>x * i\<close> for a float \<open>x\<close> and an int \<open>i\<close> converts \<open>i\<close> and multiplies. In
  \<^verbatim>\<open>get_planner\<close> one factor of every product is a power of two (\<open>bits / 8\<close> and
  \<open>2 ** k\<close>), so below the overflow threshold the product of the two doubles is a
  double again and is taken exactly.
\<close>

definition float_times_int :: "real \<Rightarrow> int \<Rightarrow> py_error + real" where
  "float_times_int x i =
     (case PyLong_AsDouble i of Inl e \<Rightarrow> Inl e | Inr y \<Rightarrow> Inr (x * y))"

section \<open>Capacity estimation in \<^verbatim>\<open>get_planner\<close>\<close>

datatype DataType = FP32 | FP16 | BF16 | INT64 | INT32 | INT8 | UINT8 | INT4 | INT2

record EmbeddingConfig =
  name :: string
  embedding_dim :: int
  num_embeddings :: int
  data_type :: DataType

definition DATA_TYPE_NUM_BITS :: "DataType \<rightharpoonup> int" where
  "DATA_TYPE_NUM_BITS = [FP32 \<mapsto> 32, FP16 \<mapsto> 16, BF16 \<mapsto> 16]"

text \<open>
  \<^verbatim>\<open>emb_num_embeddings_next_power_of_2 = 2 ** math.ceil(math.log2(emb_num_embeddings))\<close>.
  The exponent is never negative here, since the logarithm is taken of a value
  \<open>\<ge> 1\<close>.
\<close>

definition emb_num_embeddings_next_power_of_2 :: "int \<Rightarrow> py_error + int" where
  "emb_num_embeddings_next_power_of_2 emb_num_embeddings =
     (case math_log2 emb_num_embeddings of
        Inl e \<Rightarrow> Inl e
      | Inr l \<Rightarrow> Inr (2 ^ nat (math_ceil l)))"

text \<open>
  The body of the loop over \<^verbatim>\<open>eb_configs\<close>, in the order of the source: the
  dictionary lookup, the division by 8, the rounding of the row count, the product.
\<close>

definition total_hbm_need :: "EmbeddingConfig \<Rightarrow> py_error + real" where
  "total_hbm_need eb_config =
     (case DATA_TYPE_NUM_BITS (data_type eb_config) of
        None \<Rightarrow> Inl KeyError
      | Some bits \<Rightarrow>
          (let embedding_type_bytes = real_of_int bits / 8
           in case emb_num_embeddings_next_power_of_2 (num_embeddings eb_config) of
                Inl e \<Rightarrow> Inl e
              | Inr p \<Rightarrow>
                  (case float_times_int embedding_type_bytes (embedding_dim eb_config) of
                     Inl e \<Rightarrow> Inl e
                   | Inr x \<Rightarrow> float_times_int x p)))"

text \<open>
  The loop itself fills \<^verbatim>\<open>dict_const\<close>; the topology, the enumerator and the planner
  are built only after it has run through, so an exception in the loop leaves
  \<^verbatim>\<open>get_planner\<close> before any planning object exists. The constraint stored for a
  table is represented by its \<^verbatim>\<open>global_hbm_for_values\<close>.
\<close>

fun constraints_loop ::
  "EmbeddingConfig list \<Rightarrow> (string \<rightharpoonup> real) \<Rightarrow> py_error + (string \<rightharpoonup> real)" where
  "constraints_loop [] dict_const = Inr dict_const"
| "constraints_loop (eb_config # rest) dict_const =
     (case total_hbm_need eb_config of
        Inl e \<Rightarrow> Inl e
      | Inr t \<Rightarrow> constraints_loop rest (dict_const(name eb_config \<mapsto> t)))"

definition get_planner :: "EmbeddingConfig list \<Rightarrow> py_error + (string \<rightharpoonup> real)" where
  "get_planner eb_configs = constraints_loop eb_configs Map.empty"

text \<open>
  The specification's rounding: the smallest power of two that is at least \<open>n\<close>.
\<close>

definition next_power_of_two :: "int \<Rightarrow> int" where
  "next_power_of_two n = 2 ^ (LEAST k. n \<le> 2 ^ k)"

section \<open>\<^verbatim>\<open>MovieLensDataset\<close>: ordering and split\<close>

text \<open>
  A row of the frame after the two left joins. The columns joined in from the user
  and movie tables are absent (\<open>None\<close>) where the join found no match.
\<close>

record joined_row =
  user_id :: int
  movie_id :: int
  rating :: real
  timestamp :: int
  gender :: "int option"
  age :: "int option"
  occupation :: "int option"
  year :: "int option"

text \<open>
  \<^verbatim>\<open>split_idx = int(len(data) * 0.8)\<close>. The literal \<^verbatim>\<open>0.8\<close> is the double
  \<open>3602879701896397 / 2 ^ 52\<close>; the length is converted to a double, the product is
  rounded to 53 significant bits (the scaling by \<open>2 ^ 52\<close> does not change which
  bits are kept) and \<^verbatim>\<open>int\<close> truncates.
\<close>

definition split_idx :: "nat \<Rightarrow> nat" where
  "split_idx len = round_sig53 (round_sig53 len * 3602879701896397) div 2 ^ 52"

text \<open>
  \<^verbatim>\<open>data.sort_values("timestamp")\<close> is pandas code. The call passes no \<^verbatim>\<open>kind\<close>, so
  pandas uses its default, \<^verbatim>\<open>quicksort\<close>; pandas documents only \<^verbatim>\<open>mergesort\<close> and
  \<^verbatim>\<open>stable\<close> as stable. The sort is therefore a parameter of the model, and
  \<open>sorts_by_timestamp\<close> is what the default promises: the rows come back in
  non-decreasing timestamp order, each exactly once.
\<close>

definition sorts_by_timestamp :: "(joined_row list \<Rightarrow> joined_row list) \<Rightarrow> bool" where
  "sorts_by_timestamp sort_values =
     (\<forall>data. sorted (map timestamp (sort_values data)) \<and> mset (sort_values data) = mset data)"

text \<open>
  The part of \<^verbatim>\<open>MovieLensDataset.__init__\<close> from the sort on; \<open>joined\<close> is the frame
  after the two merges and the result is \<^verbatim>\<open>self.data\<close>.
\<close>

definition MovieLensDataset ::
  "(joined_row list \<Rightarrow> joined_row list) \<Rightarrow> joined_row list \<Rightarrow> string \<Rightarrow> joined_row list" where
  "MovieLensDataset sort_values joined split =
     (let data = sort_values joined;
          idx = split_idx (length data)
      in if split = ''train'' then take idx data else drop idx data)"


section \<open>The training drivers \<^verbatim>\<open>dump\<close> and \<^verbatim>\<open>inc_dump\<close>\<close>

text \<open>
  What a driver does to the world outside the model is recorded as a trace of events,
  in program order. The library calls \<^verbatim>\<open>get_score\<close> and \<^verbatim>\<open>incremental_dump\<close> are
  recorded with the watermarks that went in and came out.
\<close>

datatype 'w event =
    MakeDirs string
  | GetScore 'w
  | IncrementalDump 'w 'w
  | PrintBatch nat int nat nat real "nat option"
  | PrintEpoch nat int real
  | TorchSave string nat int
  | DynamicEmbDump string

text \<open>
  \<^verbatim>\<open>incremental_dump\<close> returns, per module path and per table name, the tensors of the
  selected rows: their keys and their values. A tensor is the list of its rows, so
  \<^verbatim>\<open>tensors[0].size(0)\<close> is the length of the first component.
\<close>

type_synonym ('k, 'v) ret_tensors = "(string \<times> (string \<times> ('k list \<times> 'v list)) list) list"

definition dump_number_of :: "('k, 'v) ret_tensors \<Rightarrow> nat" where
  "dump_number_of ret_tensors =
     fold (\<lambda>(module_path, named_tensors) dump_number.
             fold (\<lambda>(table_name, tensors) dump_number. dump_number + length (fst tensors))
               named_tensors dump_number)
       ret_tensors 0"

text \<open>
  The inner loop of \<^verbatim>\<open>inc_dump\<close>. The state is the model, \<^verbatim>\<open>undumped_score\<close>,
  \<^verbatim>\<open>total_loss\<close> and the trace. \<open>train_step\<close> stands for the forward pass, the loss,
  the backward pass and the optimizer step, and returns \<^verbatim>\<open>loss.item()\<close>. Losses are
  reals: their values reach the log lines only.
\<close>

fun inc_dump_batches ::
  "('m \<Rightarrow> 'w \<Rightarrow> ('k, 'v) ret_tensors \<times> 'w) \<Rightarrow> ('m \<Rightarrow> 'b \<Rightarrow> 'm \<times> real) \<Rightarrow>
   nat \<Rightarrow> int \<Rightarrow> nat \<Rightarrow> nat \<Rightarrow> 'b list \<Rightarrow>
   'm \<times> 'w \<times> real \<times> 'w event list \<Rightarrow> 'm \<times> 'w \<times> real \<times> 'w event list" where
  "inc_dump_batches incremental_dump train_step epoch epochs len batch_idx [] st = st"
| "inc_dump_batches incremental_dump train_step epoch epochs len batch_idx (batch # rest)
     (model, undumped_score, total_loss, trace) =
     (let (model', loss) = train_step model batch;
          total_loss' = total_loss + loss
      in if batch_idx mod 100 = 0
         then (let (ret_tensors, undumped_score') = incremental_dump model' undumped_score;
                   dump_number = dump_number_of ret_tensors
               in inc_dump_batches incremental_dump train_step epoch epochs len (Suc batch_idx) rest
                    (model', undumped_score', total_loss',
                     trace @ [IncrementalDump undumped_score undumped_score',
                              PrintBatch (epoch + 1) epochs batch_idx len loss (Some dump_number)]))
         else inc_dump_batches incremental_dump train_step epoch epochs len (Suc batch_idx) rest
                (model', undumped_score, total_loss', trace))"

text \<open>
  The loop over the epochs. \<^verbatim>\<open>train_sampler.set_epoch(epoch)\<close> reshuffles, so the
  loader yields a list of batches per epoch. The average
  \<^verbatim>\<open>total_loss / len(train_loader)\<close> raises \<^verbatim>\<open>ZeroDivisionError\<close> for an empty loader.
\<close>

fun inc_dump_epochs ::
  "('m \<Rightarrow> 'w \<Rightarrow> ('k, 'v) ret_tensors \<times> 'w) \<Rightarrow> ('m \<Rightarrow> 'b \<Rightarrow> 'm \<times> real) \<Rightarrow>
   (nat \<Rightarrow> 'b list) \<Rightarrow> int \<Rightarrow> nat list \<Rightarrow>
   'm \<times> 'w \<times> 'w event list \<Rightarrow> py_error option \<times> 'w event list" where
  "inc_dump_epochs incremental_dump train_step train_loader epochs [] (model, undumped_score, trace) =
     (None, trace)"
| "inc_dump_epochs incremental_dump train_step train_loader epochs (epoch # later)
     (model, undumped_score, trace) =
     (let batches = train_loader epoch;
          (model', undumped_score', total_loss, trace') =
             inc_dump_batches incremental_dump train_step epoch epochs (length batches) 0 batches
               (model, undumped_score, 0, trace)
      in if length batches = 0 then (Some ZeroDivisionError, trace')
         else inc_dump_epochs incremental_dump train_step train_loader epochs later
                (model', undumped_score',
                 trace' @ [PrintEpoch (epoch + 1) epochs (total_loss / real (length batches))]))"

text \<open>
  \<^verbatim>\<open>inc_dump\<close> from \<^verbatim>\<open>os.makedirs\<close> on. The data set, the loader and the model that
  \<^verbatim>\<open>create_model\<close> returns are inputs. The result is the exception that ended the run,
  if any, and the trace.
\<close>

definition inc_dump ::
  "('m \<Rightarrow> 'w) \<Rightarrow> ('m \<Rightarrow> 'w \<Rightarrow> ('k, 'v) ret_tensors \<times> 'w) \<Rightarrow> ('m \<Rightarrow> 'b \<Rightarrow> 'm \<times> real) \<Rightarrow>
   (nat \<Rightarrow> 'b list) \<Rightarrow> string \<Rightarrow> int \<Rightarrow> 'm \<Rightarrow> py_error option \<times> 'w event list" where
  "inc_dump get_score incremental_dump train_step train_loader save_dir epochs model =
     (let undumped_score = get_score model
      in inc_dump_epochs incremental_dump train_step train_loader epochs [0..<nat epochs]
           (model, undumped_score, [MakeDirs save_dir, GetScore undumped_score]))"

text \<open>
  The sibling \<^verbatim>\<open>dump\<close>: the same loops without the incremental dump, a
  \<^verbatim>\<open>torch.save\<close> of the dense state after every epoch and one \<^verbatim>\<open>DynamicEmbDump\<close> at
  the end.
\<close>

fun dump_batches ::
  "('m \<Rightarrow> 'b \<Rightarrow> 'm \<times> real) \<Rightarrow> nat \<Rightarrow> int \<Rightarrow> nat \<Rightarrow> nat \<Rightarrow> 'b list \<Rightarrow>
   'm \<times> real \<times> 'w event list \<Rightarrow> 'm \<times> real \<times> 'w event list" where
  "dump_batches train_step epoch epochs len batch_idx [] st = st"
| "dump_batches train_step epoch epochs len batch_idx (batch # rest) (model, total_loss, trace) =
     (let (model', loss) = train_step model batch;
          total_loss' = total_loss + loss
      in dump_batches train_step epoch epochs len (Suc batch_idx) rest
           (model', total_loss',
            if batch_idx mod 100 = 0
            then trace @ [PrintBatch (epoch + 1) epochs batch_idx len loss None]
            else trace))"

fun dump_epochs ::
  "('m \<Rightarrow> 'b \<Rightarrow> 'm \<times> real) \<Rightarrow> (nat \<Rightarrow> 'b list) \<Rightarrow> string \<Rightarrow> int \<Rightarrow> int \<Rightarrow> nat list \<Rightarrow>
   'm \<times> 'w event list \<Rightarrow> py_error option \<times> 'w event list" where
  "dump_epochs train_step train_loader save_dir global_rank epochs [] (model, trace) =
     (None, trace @ [DynamicEmbDump save_dir])"
| "dump_epochs train_step train_loader save_dir global_rank epochs (epoch # later) (model, trace) =
     (let batches = train_loader epoch;
          (model', total_loss, trace') =
             dump_batches train_step epoch epochs (length batches) 0 batches (model, 0, trace)
      in if length batches = 0 then (Some ZeroDivisionError, trace')
         else dump_epochs train_step train_loader save_dir global_rank epochs later
                (model',
                 trace' @ [PrintEpoch (epoch + 1) epochs (total_loss / real (length batches)),
                           TorchSave save_dir (epoch + 1) global_rank]))"

definition dump ::
  "('m \<Rightarrow> 'b \<Rightarrow> 'm \<times> real) \<Rightarrow> (nat \<Rightarrow> 'b list) \<Rightarrow> string \<Rightarrow> int \<Rightarrow> int \<Rightarrow> 'm \<Rightarrow>
   py_error option \<times> 'w event list" where
  "dump train_step train_loader save_dir global_rank epochs model =
     dump_epochs train_step train_loader save_dir global_rank epochs [0..<nat epochs]
       (model, [MakeDirs save_dir])"

text \<open>The events that put model data into stable storage.\<close>

fun is_storage_write :: "'w event \<Rightarrow> bool" where
  "is_storage_write (TorchSave save_dir epoch global_rank) = True"
| "is_storage_write (DynamicEmbDump save_dir) = True"
| "is_storage_write e = False"

text \<open>
  A trace passes the watermark \<open>w\<close> forward when every \<^verbatim>\<open>incremental_dump\<close> call in it
  receives the watermark that the call before it returned, the first one receiving
  \<open>w\<close>.
\<close>

fun passes_forward :: "'w \<Rightarrow> 'w event list \<Rightarrow> bool" where
  "passes_forward w [] = True"
| "passes_forward w (IncrementalDump since returned # es) =
     (since = w \<and> passes_forward returned es)"
| "passes_forward w (e # es) = passes_forward w es"

text \<open>The watermark that the last \<^verbatim>\<open>incremental_dump\<close> call of a trace returned.\<close>

fun last_watermark :: "'w \<Rightarrow> 'w event list \<Rightarrow> 'w" where
  "last_watermark w [] = w"
| "last_watermark w (IncrementalDump since returned # es) = last_watermark returned es"
| "last_watermark w (e # es) = last_watermark w es"

text \<open>
  A small stand-in for the library, used to run the drivers on concrete inputs: the
  model is the number of optimizer steps taken, a row's order marker is the step that
  touched it, and \<open>step_incremental_dump\<close> returns the rows whose marker lies above
  the watermark. \<open>step_incremental_dump'\<close> returns other rows, equally many.
\<close>

definition step_train_step :: "nat \<Rightarrow> real \<Rightarrow> nat \<times> real" where
  "step_train_step model batch = (Suc model, batch)"

definition step_get_score :: "nat \<Rightarrow> nat" where
  "step_get_score model = model"

definition step_incremental_dump :: "nat \<Rightarrow> nat \<Rightarrow> (nat, nat) ret_tensors \<times> nat" where
  "step_incremental_dump model since =
     ([(''model'', [(''user_id'', ([since..<model], [since..<model]))])], model)"

definition step_incremental_dump' :: "nat \<Rightarrow> nat \<Rightarrow> (nat, nat) ret_tensors \<times> nat" where
  "step_incremental_dump' model since =
     ([(''model'', [(''user_id'', (rev [since..<model], [])), (''movie_id'', ([], []))])], model)"

section \<open>\<^verbatim>\<open>parse_args\<close>\<close>

text \<open>
  The namespace that \<^verbatim>\<open>parse_args\<close> returns; the fields carry the prefix \<open>arg_\<close>.
  \<^verbatim>\<open>lr\<close> is a float; its default \<^verbatim>\<open>0.01\<close> is the double
  \<open>5764607523034235 / 2 ^ 59\<close>.
\<close>

record args =
  arg_train :: bool
  arg_load :: bool
  arg_dump :: bool
  arg_incremental_dump :: bool
  arg_data_path :: string
  arg_epochs :: int
  arg_batch_size :: int
  arg_lr :: real
  arg_embedding_dim :: int
  arg_num_embeddings :: int
  arg_mlp_dims :: string
  arg_save_dir :: string
  arg_seed :: int
  arg_local_rank :: int
  arg_local_world_size :: int
  arg_node_rank :: int
  arg_num_nodes :: int
  arg_master_addr :: string
  arg_master_port :: string
  arg_backend :: string

text \<open>
  The command line after \<^verbatim>\<open>argparse\<close> has split it and applied each flag's
  \<^verbatim>\<open>type\<close>: a \<^verbatim>\<open>store_true\<close> flag is present or not, every other flag is absent
  (\<open>None\<close>) or carries its converted value.
\<close>

record command_line =
  flag_train :: bool
  flag_load :: bool
  flag_dump :: bool
  flag_incremental_dump :: bool
  flag_data_path :: "string option"
  flag_epochs :: "int option"
  flag_batch_size :: "int option"
  flag_lr :: "real option"
  flag_embedding_dim :: "int option"
  flag_num_embeddings :: "int option"
  flag_mlp_dims :: "string option"
  flag_save_dir :: "string option"
  flag_seed :: "int option"
  flag_local_rank :: "int option"
  flag_local_world_size :: "int option"
  flag_node_rank :: "int option"
  flag_num_nodes :: "int option"
  flag_master_addr :: "string option"
  flag_master_port :: "string option"
  flag_backend :: "string option"

definition given_or :: "'a option \<Rightarrow> 'a \<Rightarrow> 'a" where
  "given_or flag dflt = (case flag of None \<Rightarrow> dflt | Some v \<Rightarrow> v)"

text \<open>
  \<^verbatim>\<open>int(os.environ.get(key, dflt))\<close> with an integer \<open>dflt\<close>. The built-in
  \<^verbatim>\<open>int\<close> applied to a string is the parameter \<open>py_int\<close>; \<open>None\<close> is its
  \<^verbatim>\<open>ValueError\<close>.
\<close>

definition environ_int ::
  "(string \<Rightarrow> int option) \<Rightarrow> (string \<rightharpoonup> string) \<Rightarrow> string \<Rightarrow> int \<Rightarrow> py_error + int" where
  "environ_int py_int environ key dflt =
     (case environ key of
        None \<Rightarrow> Inr dflt
      | Some s \<Rightarrow> (case py_int s of None \<Rightarrow> Inl ValueError | Some v \<Rightarrow> Inr v))"

definition environ_get :: "(string \<rightharpoonup> string) \<Rightarrow> string \<Rightarrow> string \<Rightarrow> string" where
  "environ_get environ key dflt = (case environ key of None \<Rightarrow> dflt | Some s \<Rightarrow> s)"

text \<open>
  The defaults are computed while the parser is built, in the order of the
  \<^verbatim>\<open>add_argument\<close> calls and before the command line is looked at, so a malformed
  environment variable raises even when its flag is given.
\<close>

definition parse_args ::
  "(string \<Rightarrow> int option) \<Rightarrow> (string \<rightharpoonup> string) \<Rightarrow> command_line \<Rightarrow> py_error + args" where
  "parse_args py_int environ argv =
     (case environ_int py_int environ ''LOCAL_RANK'' 0 of
        Inl e \<Rightarrow> Inl e
      | Inr local_rank \<Rightarrow>
     (case environ_int py_int environ ''LOCAL_WORLD_SIZE'' 1 of
        Inl e \<Rightarrow> Inl e
      | Inr local_world_size \<Rightarrow>
     (case environ_int py_int environ ''RANK'' 0 of
        Inl e \<Rightarrow> Inl e
      | Inr node_rank \<Rightarrow>
     (case environ_int py_int environ ''PET_NNODES'' 1 of
        Inl e \<Rightarrow> Inl e
      | Inr num_nodes \<Rightarrow>
          Inr \<lparr> arg_train = flag_train argv,
                arg_load = flag_load argv,
                arg_dump = flag_dump argv,
                arg_incremental_dump = flag_incremental_dump argv,
                arg_data_path = given_or (flag_data_path argv) ''./ml-1m'',
                arg_epochs = given_or (flag_epochs argv) 5,
                arg_batch_size = given_or (flag_batch_size argv) 1024,
                arg_lr = given_or (flag_lr argv) (5764607523034235 / 2 ^ 59),
                arg_embedding_dim = given_or (flag_embedding_dim argv) 64,
                arg_num_embeddings = given_or (flag_num_embeddings argv) 10000,
                arg_mlp_dims = given_or (flag_mlp_dims argv) ''128,64,32'',
                arg_save_dir = given_or (flag_save_dir argv) ''./model_checkpoints'',
                arg_seed = given_or (flag_seed argv) 42,
                arg_local_rank = given_or (flag_local_rank argv) local_rank,
                arg_local_world_size = given_or (flag_local_world_size argv) local_world_size,
                arg_node_rank = given_or (flag_node_rank argv) node_rank,
                arg_num_nodes = given_or (flag_num_nodes argv) num_nodes,
                arg_master_addr =
                  given_or (flag_master_addr argv)
                    (environ_get environ ''MASTER_ADDR'' ''localhost''),
                arg_master_port =
                  given_or (flag_master_port argv)
                    (environ_get environ ''MASTER_PORT'' ''29500''),
                arg_backend = given_or (flag_backend argv) ''nccl'' \<rparr>))))"

text \<open>A command line without any flag, and an environment that sets every variable to 7.\<close>

definition no_flags :: command_line where
  "no_flags =
     \<lparr> flag_train = False, flag_load = False, flag_dump = False, flag_incremental_dump = False,
       flag_data_path = None, flag_epochs = None, flag_batch_size = None, flag_lr = None,
       flag_embedding_dim = None, flag_num_embeddings = None, flag_mlp_dims = None,
       flag_save_dir = None, flag_seed = None, flag_local_rank = None,
       flag_local_world_size = None, flag_node_rank = None, flag_num_nodes = None,
       flag_master_addr = None, flag_master_port = None, flag_backend = None \<rparr>"

definition all_sevens :: "string \<rightharpoonup> string" where
  "all_sevens key = Some ''7''"

text \<open>A reading of decimal digit strings, to stand for \<^verbatim>\<open>int\<close> in evaluations.\<close>

definition digit_value :: "char \<Rightarrow> nat option" where
  "digit_value c =
     (let n = (of_char c :: nat) in if 48 \<le> n \<and> n \<le> 57 then Some (n - 48) else None)"

fun decimal_from :: "nat \<Rightarrow> string \<Rightarrow> nat option" where
  "decimal_from acc [] = Some acc"
| "decimal_from acc (c # cs) =
     (case digit_value c of None \<Rightarrow> None | Some d \<Rightarrow> decimal_from (10 * acc + d) cs)"

definition decimal :: "string \<Rightarrow> int option" where
  "decimal s = (if s = [] then None else map_option int (decimal_from 0 s))"

section \<open>\<^verbatim>\<open>main\<close> and \<^verbatim>\<open>download_movielens\<close>\<close>

text \<open>
  What one process does, as the sequence of its calls that act on the cluster or on
  the file system. What \<^verbatim>\<open>download_movielens\<close> finds on disk is an input.
\<close>

datatype main_event =
    InitProcessGroup string
  | SetDevice int
  | SetupRankPrint int
  | CudaManualSeed int
  | NumpySeed int
  | MakeDataDir string
  | PrintFound string
  | UrlRetrieve string
  | ExtractAll
  | MoveFiles
  | RmTree
  | RemoveZip
  | Barrier
  | RunTrain
  | RunDump
  | RunLoad
  | RunIncDump
  | DestroyProcessGroup

record filesystem =
  ratings_exists :: bool
  extracted_elsewhere :: bool
  extracted_dir_exists :: bool

definition download_movielens :: "filesystem \<Rightarrow> string \<Rightarrow> int \<Rightarrow> main_event list" where
  "download_movielens fs data_dir global_rank =
     (if global_rank = 0
      then MakeDataDir data_dir #
           (if ratings_exists fs then [PrintFound data_dir]
            else [UrlRetrieve data_dir, ExtractAll] @
                 (if extracted_elsewhere fs
                  then MoveFiles # (if extracted_dir_exists fs then [RmTree] else [])
                  else []) @
                 [RemoveZip])
      else [])"

text \<open>
  \<^verbatim>\<open>main\<close> after \<^verbatim>\<open>parse_args\<close>. \<open>global_rank\<close> is what \<^verbatim>\<open>dist.get_rank()\<close> returns in
  \<^verbatim>\<open>init_distributed\<close>. The call \<^verbatim>\<open>download_movielens(args.data_path)\<close> leaves the
  function's \<^verbatim>\<open>global_rank\<close> parameter at its default 0. A mode function is recorded
  by its call and is taken to return.
\<close>

definition main :: "args \<Rightarrow> int \<Rightarrow> filesystem \<Rightarrow> main_event list" where
  "main args global_rank fs =
     [InitProcessGroup (arg_backend args), SetDevice (arg_local_rank args),
      SetupRankPrint global_rank, CudaManualSeed (arg_seed args), NumpySeed (arg_seed args)] @
     (if arg_local_rank args = 0 then download_movielens fs (arg_data_path args) 0 else []) @
     [Barrier] @
     (if arg_train args then [RunTrain] else []) @
     (if arg_dump args then [RunDump] else []) @
     (if arg_load args then [RunLoad] else []) @
     (if arg_incremental_dump args then [RunIncDump] else []) @
     [DestroyProcessGroup]"

section \<open>Facts about the conversions\<close>

lemma bit_length_le: "n < 2 ^ k \<Longrightarrow> bit_length n \<le> k"
proof (induction k arbitrary: n)
  case 0
  then show ?case by (simp add: bit_length.simps)
next
  case (Suc k)
  show ?case
  proof (cases "n = 0")
    case True
    then show ?thesis by (simp add: bit_length.simps)
  next
    case False
    from Suc.prems have "n div 2 < 2 ^ k" by simp
    then have "bit_length (n div 2) \<le> k" by (rule Suc.IH)
    with False show ?thesis by (subst bit_length.simps) simp
  qed
qed

lemma round_sig53_exact: "n < 2 ^ 53 \<Longrightarrow> round_sig53 n = n"
  using bit_length_le [of n 53] by (simp add: round_sig53_def)

lemma PyLong_AsDouble_exact:
  assumes "\<bar>i\<bar> < 2 ^ 53"
  shows "PyLong_AsDouble i = Inr (real_of_int i)"
proof -
  from assms have n: "nat \<bar>i\<bar> < 2 ^ 53" by (simp add: nat_less_iff)
  then have r: "round_sig53 (nat \<bar>i\<bar>) = nat \<bar>i\<bar>" by (rule round_sig53_exact)
  have "(2::nat) ^ 53 < 2 ^ 1024" by (rule power_strict_increasing) simp_all
  with n have "\<not> (2::nat) ^ 1024 \<le> nat \<bar>i\<bar>" by linarith
  with r show ?thesis
    by (simp only: PyLong_AsDouble_def Let_def if_False) simp
qed

lemma math_log2_exact:
  "0 < n \<Longrightarrow> n < 2 ^ 53 \<Longrightarrow> math_log2 n = Inr (log 2 (real_of_int n))"
  using round_sig53_exact [of "nat n"] by (simp add: math_log2_def nat_less_iff)

lemma math_log2_domain_error: "n < 1 \<Longrightarrow> math_log2 n = Inl ValueError"
  by (simp add: math_log2_def)

lemma next_power_of_2_exact:
  assumes "2 ^ k < n" "n \<le> 2 ^ Suc k" "n < 2 ^ 53"
  shows "emb_num_embeddings_next_power_of_2 n = Inr (2 ^ Suc k)"
proof -
  have pos: "0 < n" using assms(1) by (smt (verit) zero_less_power)
  have "(2::nat) ^ k < nat n" using assms(1) pos
    by (metis of_nat_numeral of_nat_power nat_int zless_nat_conj)
  then have lo: "real k < log 2 (real (nat n))" by (rule less_log2_of_power)
  have "nat n \<le> 2 ^ Suc k" using assms(2) pos
    by (metis nat_le_iff of_nat_numeral of_nat_power)
  then have "real (nat n) \<le> real (2 ^ Suc k)" by (rule of_nat_mono)
  then have "real (nat n) \<le> 2 ^ Suc k" by simp
  then have hi: "log 2 (real (nat n)) \<le> real (Suc k)"
    using pos by (intro log_of_power_le) simp_all
  have "real (nat n) = real_of_int n" using pos by simp
  with lo hi have "\<lceil>log 2 (real_of_int n)\<rceil> = int (Suc k)"
    by (intro ceiling_unique) simp_all
  then have "nat \<lceil>log 2 (real_of_int n)\<rceil> = Suc k" by (simp only: nat_int)
  then show ?thesis
    by (simp only: emb_num_embeddings_next_power_of_2_def math_ceil_def
        math_log2_exact [OF pos assms(3)] sum.case)
qed

lemma next_power_of_2_one: "emb_num_embeddings_next_power_of_2 1 = Inr 1"
  using math_log2_exact [of 1]
  by (simp add: emb_num_embeddings_next_power_of_2_def math_ceil_def)

lemma next_power_of_2_10000: "emb_num_embeddings_next_power_of_2 10000 = Inr 16384"
  using next_power_of_2_exact [of 13 10000] by simp

lemma bit_length_2_53_1: "bit_length 9007199254740993 = 54"
  by (simp add: bit_length.simps)

lemma bit_length_2_53: "bit_length 9007199254740992 = 54"
  by (simp add: bit_length.simps)

lemma round_sig53_2_53_1: "round_sig53 9007199254740993 = 9007199254740992"
  by (simp add: round_sig53_def bit_length_2_53_1 round_half_even_def Let_def)

lemma round_sig53_2_53: "round_sig53 9007199254740992 = 9007199254740992"
  by (simp add: round_sig53_def bit_length_2_53 round_half_even_def Let_def)

lemma next_power_of_2_large:
  "emb_num_embeddings_next_power_of_2 9007199254740993 = Inr 9007199254740992"
proof -
  have "(9007199254740992::real) = 2 ^ 53" by simp
  then have "log 2 (real (round_sig53 9007199254740993)) = 53"
    by (simp only: round_sig53_2_53_1 of_nat_numeral log_pow_cancel)
  then show ?thesis
    by (simp add: emb_num_embeddings_next_power_of_2_def math_log2_def math_ceil_def)
qed

lemma PyLong_AsDouble_2_53: "PyLong_AsDouble 9007199254740992 = Inr 9007199254740992"
  by (simp add: PyLong_AsDouble_def round_sig53_2_53)

lemma next_power_of_two_large: "next_power_of_two 9007199254740993 = 18014398509481984"
proof -
  have "(LEAST k. (9007199254740993::int) \<le> 2 ^ k) = 54"
  proof (rule Least_equality)
    show "(9007199254740993::int) \<le> 2 ^ 54" by simp
    fix y assume a: "(9007199254740993::int) \<le> 2 ^ y"
    show "54 \<le> y"
    proof (rule ccontr)
      assume "\<not> 54 \<le> y"
      then have "y \<le> 53" by simp
      then have "(2::int) ^ y \<le> 2 ^ 53" by (rule power_increasing) simp
      with a show False by simp
    qed
  qed
  then show ?thesis by (simp add: next_power_of_two_def)
qed

lemma next_power_of_2_bounded:
  assumes "1 \<le> n" "n \<le> 2 ^ 52"
  shows "\<exists>k\<le>52. emb_num_embeddings_next_power_of_2 n = Inr (2 ^ k)"
proof -
  have lt: "n < 2 ^ 53" using assms(2) by simp
  have pos: "0 < n" using assms(1) by simp
  have "real_of_int n \<le> 2 ^ 52" using assms(2) by (metis of_int_le_iff of_int_numeral of_int_power)
  then have "log 2 (real_of_int n) \<le> log 2 (2 ^ 52)"
    using pos by (subst log_le_cancel_iff) simp_all
  also have "log 2 ((2::real) ^ 52) = 52" by (simp only: log_pow_cancel)
  finally have "\<lceil>log 2 (real_of_int n)\<rceil> \<le> 52" by (simp add: ceiling_le_iff)
  then have "nat \<lceil>log 2 (real_of_int n)\<rceil> \<le> 52" by simp
  moreover have "emb_num_embeddings_next_power_of_2 n = Inr (2 ^ nat \<lceil>log 2 (real_of_int n)\<rceil>)"
    by (simp only: emb_num_embeddings_next_power_of_2_def math_ceil_def
        math_log2_exact [OF pos lt] sum.case)
  ultimately show ?thesis by blast
qed

lemma constraints_loop_append:
  "constraints_loop (pre @ post) d =
     (case constraints_loop pre d of Inl e \<Rightarrow> Inl e | Inr d' \<Rightarrow> constraints_loop post d')"
  by (induction pre arbitrary: d) (auto split: sum.splits)

lemma total_hbm_need_10000:
  "total_hbm_need \<lparr>name = ''user_id'', embedding_dim = 64, num_embeddings = 10000,
     data_type = FP32\<rparr> = Inr 4194304"
  using PyLong_AsDouble_exact [of 64] PyLong_AsDouble_exact [of 16384]
  by (simp add: total_hbm_need_def DATA_TYPE_NUM_BITS_def next_power_of_2_10000
      float_times_int_def)

text \<open>
  Where the conversions are exact the capacity is the product of the bytes per
  element, the width and the rounded row count.
\<close>

lemma total_hbm_need_product:
  assumes "DATA_TYPE_NUM_BITS (data_type c) = Some bits"
    and "emb_num_embeddings_next_power_of_2 (num_embeddings c) = Inr p"
    and "\<bar>embedding_dim c\<bar> < 2 ^ 53" and "\<bar>p\<bar> < 2 ^ 53"
  shows "total_hbm_need c =
           Inr (real_of_int bits / 8 * real_of_int (embedding_dim c) * real_of_int p)"
  using assms PyLong_AsDouble_exact [of "embedding_dim c"] PyLong_AsDouble_exact [of p]
  by (simp add: total_hbm_need_def float_times_int_def)

section \<open>Capacity estimation: the claims\<close>

text \<open>
  C1. The claim: for every \<open>n \<ge> 1\<close> the rounding
  \<^verbatim>\<open>2 ** math.ceil(math.log2(n))\<close> of \<^verbatim>\<open>get_planner\<close> is a power of two \<open>p\<close> with
  \<open>n \<le> p < 2 * n\<close>. At \<open>n = 2 ^ 53 + 1\<close> the code returns \<open>2 ^ 53\<close>, which is below
  \<open>n\<close>: the integer is rounded to the double \<open>2 ^ 53\<close> before the logarithm is taken.
\<close>

theorem next_power_of_2_below_row_count:
  "emb_num_embeddings_next_power_of_2 (2 ^ 53 + 1) = Inr (2 ^ 53) \<and> (2::int) ^ 53 < 2 ^ 53 + 1"
  using next_power_of_2_large by simp

text \<open>
  C2. The claim: \<^verbatim>\<open>total_hbm_need\<close> is \<open>b * d * next_power_of_two n\<close>, with
  \<open>next_power_of_two n\<close> the smallest power of two that is at least \<open>n\<close>. The
  product is formed as the claim says (\<open>total_hbm_need_product\<close>), and for
  \<open>d = 64\<close>, \<open>n = 10000\<close>, \<open>b = 4\<close> the code gives the 4194304 of the claim
  (\<open>total_hbm_need_10000\<close>); but for \<open>d = 64\<close>, \<open>n = 2 ^ 53 + 1\<close>, \<open>b = 4\<close> the
  rounded row count is \<open>2 ^ 53\<close> and the code gives \<open>4 * 64 * 2 ^ 53\<close>, half of what
  the claim asks for.
\<close>

theorem total_hbm_need_half_of_contract:
  "total_hbm_need \<lparr>name = ''user_id'', embedding_dim = 64, num_embeddings = 2 ^ 53 + 1,
     data_type = FP32\<rparr> = Inr (4 * 64 * 2 ^ 53) \<and>
   4 * 64 * next_power_of_two (2 ^ 53 + 1) = 2 * (4 * 64 * 2 ^ 53)"
  using PyLong_AsDouble_exact [of 64] PyLong_AsDouble_2_53 next_power_of_two_large
  by (simp add: total_hbm_need_def DATA_TYPE_NUM_BITS_def next_power_of_2_large
      float_times_int_def)

text \<open>
  C3. The claim: capacity estimation fails with \<open>InvalidConfig\<close> whenever \<open>n < 1\<close> or
  \<open>d < 1\<close>, and produces no capacity value then. The code has no such check: for
  \<open>d = 0\<close> and \<open>n = 1\<close> it produces the capacity 0.
\<close>

theorem zero_width_gets_a_capacity:
  "total_hbm_need \<lparr>name = ''user_id'', embedding_dim = 0, num_embeddings = 1,
     data_type = FP32\<rparr> = Inr 0"
  using PyLong_AsDouble_exact [of 0] PyLong_AsDouble_exact [of 1]
  by (simp add: total_hbm_need_def DATA_TYPE_NUM_BITS_def next_power_of_2_one
      float_times_int_def)

text \<open>
  C3, as amended. For a table of a data type that \<^verbatim>\<open>DATA_TYPE_NUM_BITS\<close> knows, a row
  count below 1 makes \<^verbatim>\<open>math.log2\<close> raise \<^verbatim>\<open>ValueError\<close>: no capacity is produced for
  the table, and \<^verbatim>\<open>get_planner\<close> ends with that exception inside its loop when the
  tables before it went through. A vector width below 1 is not rejected: for row
  counts from 1 to \<open>2 ^ 52\<close> and widths of magnitude below \<open>2 ^ 53\<close>, of either sign,
  the capacity is the product of the bytes per element, the width and a power of two.
\<close>

theorem capacity_estimation_errors:
  "(DATA_TYPE_NUM_BITS (data_type c) = Some bits \<and> num_embeddings c < 1 \<longrightarrow>
      total_hbm_need c = Inl ValueError \<and>
      (constraints_loop pre Map.empty = Inr dict_const \<longrightarrow>
         get_planner (pre @ c # rest) = Inl ValueError)) \<and>
   (DATA_TYPE_NUM_BITS (data_type c) = Some bits \<and> 1 \<le> num_embeddings c \<and>
    num_embeddings c \<le> 2 ^ 52 \<and> \<bar>embedding_dim c\<bar> < 2 ^ 53 \<longrightarrow>
      (\<exists>k\<le>52. total_hbm_need c = Inr (real_of_int bits / 8 * real_of_int (embedding_dim c) * 2 ^ k)))"
proof (intro conjI impI)
  assume a: "DATA_TYPE_NUM_BITS (data_type c) = Some bits \<and> num_embeddings c < 1"
  then show err: "total_hbm_need c = Inl ValueError"
    by (simp add: total_hbm_need_def emb_num_embeddings_next_power_of_2_def
        math_log2_domain_error)
  assume "constraints_loop pre Map.empty = Inr dict_const"
  with err show "get_planner (pre @ c # rest) = Inl ValueError"
    by (simp add: get_planner_def constraints_loop_append)
next
  assume a: "DATA_TYPE_NUM_BITS (data_type c) = Some bits \<and> 1 \<le> num_embeddings c \<and>
    num_embeddings c \<le> 2 ^ 52 \<and> \<bar>embedding_dim c\<bar> < 2 ^ 53"
  then obtain k where k: "k \<le> 52"
    and p: "emb_num_embeddings_next_power_of_2 (num_embeddings c) = Inr (2 ^ k)"
    using next_power_of_2_bounded [of "num_embeddings c"] by blast
  have "(2::int) ^ k \<le> 2 ^ 52" using k by (intro power_increasing) simp_all
  then have "\<bar>(2::int) ^ k\<bar> < 2 ^ 53" by simp
  then have "PyLong_AsDouble (2 ^ k) = Inr (real_of_int (2 ^ k))"
    by (rule PyLong_AsDouble_exact)
  moreover have "PyLong_AsDouble (embedding_dim c) = Inr (real_of_int (embedding_dim c))"
    using a by (intro PyLong_AsDouble_exact) simp
  ultimately have
    "total_hbm_need c = Inr (real_of_int bits / 8 * real_of_int (embedding_dim c) * 2 ^ k)"
    using a p by (simp add: total_hbm_need_def float_times_int_def)
  with k show "\<exists>k\<le>52. total_hbm_need c =
      Inr (real_of_int bits / 8 * real_of_int (embedding_dim c) * 2 ^ k)"
    by blast
qed

theorem capacity_estimation_errors_witness:
  "total_hbm_need \<lparr>name = ''age'', embedding_dim = 64, num_embeddings = 0, data_type = FP16\<rparr>
     = Inl ValueError \<and>
   get_planner
     [\<lparr>name = ''user_id'', embedding_dim = 64, num_embeddings = 10000, data_type = FP32\<rparr>,
      \<lparr>name = ''age'', embedding_dim = 64, num_embeddings = 0, data_type = FP16\<rparr>,
      \<lparr>name = ''year'', embedding_dim = 64, num_embeddings = 2050, data_type = FP32\<rparr>]
     = Inl ValueError \<and>
   (\<exists>k\<le>52. total_hbm_need
      \<lparr>name = ''user_id'', embedding_dim = - 2, num_embeddings = 10000, data_type = FP32\<rparr>
        = Inr (32 / 8 * (- 2) * 2 ^ k))"
proof -
  let ?bad = "\<lparr>name = ''age'', embedding_dim = 64, num_embeddings = 0, data_type = FP16\<rparr>"
  let ?ok = "\<lparr>name = ''user_id'', embedding_dim = 64, num_embeddings = 10000, data_type = FP32\<rparr>"
  let ?neg = "\<lparr>name = ''user_id'', embedding_dim = - 2, num_embeddings = 10000, data_type = FP32\<rparr>"
  let ?last = "\<lparr>name = ''year'', embedding_dim = 64, num_embeddings = 2050, data_type = FP32\<rparr>"
  have pre: "constraints_loop [?ok] Map.empty = Inr [''user_id'' \<mapsto> 4194304]"
    by (simp add: total_hbm_need_10000)
  have "total_hbm_need ?bad = Inl ValueError \<and> get_planner ([?ok] @ ?bad # [?last]) = Inl ValueError"
    using capacity_estimation_errors [of ?bad 16 "[?ok]" "[''user_id'' \<mapsto> 4194304]" "[?last]"] pre
    by (simp add: DATA_TYPE_NUM_BITS_def)
  moreover have "\<exists>k\<le>52. total_hbm_need ?neg = Inr (32 / 8 * (- 2) * 2 ^ k)"
    using capacity_estimation_errors [of ?neg 32]
    by (simp add: DATA_TYPE_NUM_BITS_def)
  ultimately show ?thesis by simp
qed

section \<open>The incremental-dump driver\<close>

lemma passes_forward_append:
  "passes_forward w (tr @ tr') \<longleftrightarrow>
     passes_forward w tr \<and> passes_forward (last_watermark w tr) tr'"
  by (induction w tr rule: passes_forward.induct) simp_all

lemma last_watermark_append:
  "last_watermark w (tr @ tr') = last_watermark (last_watermark w tr) tr'"
  by (induction w tr rule: last_watermark.induct) simp_all

text \<open>
  The invariant of both loops: the trace so far passes the watermark forward, and
  \<^verbatim>\<open>undumped_score\<close> is the watermark that its last call returned.
\<close>

lemma inc_dump_batches_invariant:
  assumes "inc_dump_batches incremental_dump train_step epoch epochs len batch_idx batches
             (model, undumped_score, total_loss, trace) = (model', undumped_score', total_loss', trace')"
    and "passes_forward w trace" and "last_watermark w trace = undumped_score"
  shows "passes_forward w trace' \<and> last_watermark w trace' = undumped_score'"
  using assms
proof (induction batches arbitrary: batch_idx model undumped_score total_loss trace)
  case Nil
  then show ?case by simp
next
  case (Cons batch rest)
  obtain m1 loss where step: "train_step model batch = (m1, loss)"
    by (cases "train_step model batch")
  show ?case
  proof (cases "batch_idx mod 100 = 0")
    case True
    obtain ret s1 where call: "incremental_dump m1 undumped_score = (ret, s1)"
      by (cases "incremental_dump m1 undumped_score")
    let ?trace1 = "trace @ [IncrementalDump undumped_score s1,
        PrintBatch (epoch + 1) epochs batch_idx len loss (Some (dump_number_of ret))]"
    from Cons.prems(1) step call True
    have run: "inc_dump_batches incremental_dump train_step epoch epochs len (Suc batch_idx) rest
        (m1, s1, total_loss + loss, ?trace1) = (model', undumped_score', total_loss', trace')"
      by simp
    have "passes_forward w ?trace1"
      using Cons.prems(2,3) by (simp add: passes_forward_append)
    moreover have "last_watermark w ?trace1 = s1"
      by (simp add: last_watermark_append)
    ultimately show ?thesis using Cons.IH [OF run] by blast
  next
    case False
    from Cons.prems(1) step False
    have run: "inc_dump_batches incremental_dump train_step epoch epochs len (Suc batch_idx) rest
        (m1, undumped_score, total_loss + loss, trace) = (model', undumped_score', total_loss', trace')"
      by simp
    show ?thesis using Cons.IH [OF run Cons.prems(2,3)] .
  qed
qed

lemma inc_dump_epochs_invariant:
  assumes "passes_forward w trace" and "last_watermark w trace = undumped_score"
  shows "passes_forward w
           (snd (inc_dump_epochs incremental_dump train_step train_loader epochs es
                   (model, undumped_score, trace)))"
  using assms
proof (induction es arbitrary: model undumped_score trace)
  case Nil
  then show ?case by simp
next
  case (Cons epoch later)
  obtain m1 s1 t1 tr1 where run:
    "inc_dump_batches incremental_dump train_step epoch epochs (length (train_loader epoch)) 0
       (train_loader epoch) (model, undumped_score, 0, trace) = (m1, s1, t1, tr1)"
    by (metis prod_cases4)
  from inc_dump_batches_invariant [OF run Cons.prems]
  have inv: "passes_forward w tr1" "last_watermark w tr1 = s1" by simp_all
  show ?case
  proof (cases "train_loader epoch = []")
    case True
    with run inv show ?thesis by simp
  next
    case False
    let ?tr2 = "tr1 @ [PrintEpoch (epoch + 1) epochs (t1 / real (length (train_loader epoch)))]"
    have "passes_forward w ?tr2" "last_watermark w ?tr2 = s1"
      using inv by (simp_all add: passes_forward_append last_watermark_append)
    then have "passes_forward w
        (snd (inc_dump_epochs incremental_dump train_step train_loader epochs later (m1, s1, ?tr2)))"
      by (rule Cons.IH)
    with run False show ?thesis by simp
  qed
qed

text \<open>
  C4. In \<^verbatim>\<open>inc_dump\<close> the first \<^verbatim>\<open>incremental_dump\<close> call receives the watermark that
  \<^verbatim>\<open>get_score\<close> returned and every later call receives the watermark that the call
  before it returned, whatever the library functions, the loader, the number of
  epochs and the way the run ends.
\<close>

theorem inc_dump_passes_watermark_forward:
  "passes_forward (get_score model)
     (snd (inc_dump get_score incremental_dump train_step train_loader save_dir epochs model))"
  unfolding inc_dump_def Let_def
  by (rule inc_dump_epochs_invariant) simp_all

text \<open>The trace of \<^verbatim>\<open>inc_dump\<close> holds no storage write.\<close>

lemma inc_dump_batches_no_write:
  assumes "inc_dump_batches incremental_dump train_step epoch epochs len batch_idx batches
             (model, undumped_score, total_loss, trace) = (model', undumped_score', total_loss', trace')"
    and "list_all (\<lambda>e. \<not> is_storage_write e) trace"
  shows "list_all (\<lambda>e. \<not> is_storage_write e) trace'"
  using assms
proof (induction batches arbitrary: batch_idx model undumped_score total_loss trace)
  case Nil
  then show ?case by simp
next
  case (Cons batch rest)
  obtain m1 loss where step: "train_step model batch = (m1, loss)"
    by (cases "train_step model batch")
  obtain ret s1 where call: "incremental_dump m1 undumped_score = (ret, s1)"
    by (cases "incremental_dump m1 undumped_score")
  show ?case
  proof (cases "batch_idx mod 100 = 0")
    case True
    with Cons.prems(1) step call
    have run: "inc_dump_batches incremental_dump train_step epoch epochs len (Suc batch_idx) rest
        (m1, s1, total_loss + loss,
         trace @ [IncrementalDump undumped_score s1,
           PrintBatch (epoch + 1) epochs batch_idx len loss (Some (dump_number_of ret))])
        = (model', undumped_score', total_loss', trace')"
      by simp
    show ?thesis by (rule Cons.IH [OF run]) (simp add: Cons.prems(2))
  next
    case False
    with Cons.prems(1) step
    have run: "inc_dump_batches incremental_dump train_step epoch epochs len (Suc batch_idx) rest
        (m1, undumped_score, total_loss + loss, trace) = (model', undumped_score', total_loss', trace')"
      by simp
    show ?thesis by (rule Cons.IH [OF run Cons.prems(2)])
  qed
qed

lemma inc_dump_epochs_no_write:
  assumes "list_all (\<lambda>e. \<not> is_storage_write e) trace"
  shows "list_all (\<lambda>e. \<not> is_storage_write e)
           (snd (inc_dump_epochs incremental_dump train_step train_loader epochs es
                   (model, undumped_score, trace)))"
  using assms
proof (induction es arbitrary: model undumped_score trace)
  case Nil
  then show ?case by simp
next
  case (Cons epoch later)
  obtain m1 s1 t1 tr1 where run:
    "inc_dump_batches incremental_dump train_step epoch epochs (length (train_loader epoch)) 0
       (train_loader epoch) (model, undumped_score, 0, trace) = (m1, s1, t1, tr1)"
    by (metis prod_cases4)
  from inc_dump_batches_no_write [OF run Cons.prems]
  have inv: "list_all (\<lambda>e. \<not> is_storage_write e) tr1" .
  show ?case
  proof (cases "train_loader epoch = []")
    case True
    with run inv show ?thesis by simp
  next
    case False
    have "list_all (\<lambda>e. \<not> is_storage_write e)
        (snd (inc_dump_epochs incremental_dump train_step train_loader epochs later
           (m1, s1, tr1 @ [PrintEpoch (epoch + 1) epochs (t1 / real (length (train_loader epoch)))])))"
      by (rule Cons.IH) (simp add: inv)
    with run False show ?thesis by simp
  qed
qed

text \<open>
  The run of \<^verbatim>\<open>inc_dump\<close> depends on what \<^verbatim>\<open>incremental_dump\<close> returns only through
  the watermark and the number of rows.
\<close>

lemma inc_dump_batches_counts_only:
  assumes "\<And>m w. snd (incremental_dump' m w) = snd (incremental_dump m w) \<and>
             dump_number_of (fst (incremental_dump' m w)) = dump_number_of (fst (incremental_dump m w))"
  shows "inc_dump_batches incremental_dump' train_step epoch epochs len batch_idx batches st =
         inc_dump_batches incremental_dump train_step epoch epochs len batch_idx batches st"
proof (induction batches arbitrary: batch_idx st)
  case Nil
  show ?case by simp
next
  case (Cons batch rest)
  obtain model undumped_score total_loss trace where st: "st = (model, undumped_score, total_loss, trace)"
    by (metis prod_cases4)
  obtain m1 loss where step: "train_step model batch = (m1, loss)"
    by (cases "train_step model batch")
  obtain ret s1 where call: "incremental_dump m1 undumped_score = (ret, s1)"
    by (cases "incremental_dump m1 undumped_score")
  obtain ret' s1' where call': "incremental_dump' m1 undumped_score = (ret', s1')"
    by (cases "incremental_dump' m1 undumped_score")
  from assms [of m1 undumped_score] call call'
  have same: "s1' = s1" "dump_number_of ret' = dump_number_of ret" by simp_all
  show ?case
    unfolding st using step call call' same Cons.IH by (simp add: Let_def)
qed

lemma inc_dump_epochs_counts_only:
  assumes "\<And>m w. snd (incremental_dump' m w) = snd (incremental_dump m w) \<and>
             dump_number_of (fst (incremental_dump' m w)) = dump_number_of (fst (incremental_dump m w))"
  shows "inc_dump_epochs incremental_dump' train_step train_loader epochs es st =
         inc_dump_epochs incremental_dump train_step train_loader epochs es st"
proof (induction es arbitrary: st)
  case Nil
  obtain model undumped_score trace where "st = (model, undumped_score, trace)"
    by (metis prod_cases3)
  then show ?case by simp
next
  case (Cons epoch later)
  obtain model undumped_score trace where st: "st = (model, undumped_score, trace)"
    by (metis prod_cases3)
  show ?case
    unfolding st
    by (simp add: inc_dump_batches_counts_only [of incremental_dump' incremental_dump, OF assms]
        Cons.IH Let_def split: prod.splits)
qed

text \<open>
  C5. \<^verbatim>\<open>inc_dump\<close> writes none of the rows that \<^verbatim>\<open>incremental_dump\<close> returns to stable
  storage: no event of its trace is a \<^verbatim>\<open>torch.save\<close> or a \<^verbatim>\<open>DynamicEmbDump\<close>, and
  the returned tensors are only counted, so that a library returning other rows,
  equally many and with the same watermark, gives the same run.
\<close>

theorem inc_dump_only_counts_rows:
  "(\<forall>e \<in> set (snd (inc_dump get_score incremental_dump train_step train_loader save_dir
                     epochs model)). \<not> is_storage_write e) \<and>
   ((\<forall>m w. snd (incremental_dump' m w) = snd (incremental_dump m w) \<and>
            dump_number_of (fst (incremental_dump' m w)) =
              dump_number_of (fst (incremental_dump m w))) \<longrightarrow>
    inc_dump get_score incremental_dump' train_step train_loader save_dir epochs model =
    inc_dump get_score incremental_dump train_step train_loader save_dir epochs model)"
proof (intro conjI impI)
  have "list_all (\<lambda>e. \<not> is_storage_write e)
      (snd (inc_dump get_score incremental_dump train_step train_loader save_dir epochs model))"
    unfolding inc_dump_def Let_def by (rule inc_dump_epochs_no_write) simp
  then show "\<forall>e \<in> set (snd (inc_dump get_score incremental_dump train_step train_loader save_dir
      epochs model)). \<not> is_storage_write e"
    by (simp add: list_all_iff)
next
  assume "\<forall>m w. snd (incremental_dump' m w) = snd (incremental_dump m w) \<and>
            dump_number_of (fst (incremental_dump' m w)) =
              dump_number_of (fst (incremental_dump m w))"
  then show "inc_dump get_score incremental_dump' train_step train_loader save_dir epochs model =
    inc_dump get_score incremental_dump train_step train_loader save_dir epochs model"
    unfolding inc_dump_def Let_def by (intro inc_dump_epochs_counts_only) simp
qed

text \<open>Two epochs of two batches with the stand-in library, and one epoch of \<^verbatim>\<open>dump\<close>.\<close>

lemma inc_dump_run:
  "inc_dump step_get_score step_incremental_dump step_train_step (\<lambda>epoch. [1 / 2, 1 / 4])
     ''ckpt'' 2 0 =
   (None, [MakeDirs ''ckpt'', GetScore 0,
           IncrementalDump 0 1, PrintBatch 1 2 0 2 (1 / 2) (Some 1), PrintEpoch 1 2 (3 / 8),
           IncrementalDump 1 3, PrintBatch 2 2 0 2 (1 / 2) (Some 2), PrintEpoch 2 2 (3 / 8)])"
proof -
  have "[0..<2] = [0, Suc 0]" by (simp add: numeral_2_eq_2)
  then show ?thesis
    by (simp add: inc_dump_def step_get_score_def step_incremental_dump_def step_train_step_def
        dump_number_of_def numeral_2_eq_2 numeral_3_eq_3)
qed

lemma dump_run:
  "dump step_train_step (\<lambda>epoch. [1 / 2]) ''ckpt'' 0 1 0 =
   (None, [MakeDirs ''ckpt'', PrintBatch 1 1 0 1 (1 / 2) None, PrintEpoch 1 1 (1 / 2),
           TorchSave ''ckpt'' 1 0, DynamicEmbDump ''ckpt''])"
  by (simp add: dump_def step_train_step_def)

lemma step_incremental_dump_same_counts:
  "snd (step_incremental_dump' m w) = snd (step_incremental_dump m w) \<and>
   dump_number_of (fst (step_incremental_dump' m w)) =
     dump_number_of (fst (step_incremental_dump m w))"
  by (simp add: step_incremental_dump_def step_incremental_dump'_def dump_number_of_def)

theorem inc_dump_only_counts_rows_witness:
  "list_all (\<lambda>e. \<not> is_storage_write e)
     (snd (inc_dump step_get_score step_incremental_dump step_train_step
             (\<lambda>epoch. [1 / 2, 1 / 4]) ''ckpt'' 2 0)) \<and>
   (\<forall>m w. snd (step_incremental_dump' m w) = snd (step_incremental_dump m w) \<and>
          dump_number_of (fst (step_incremental_dump' m w)) =
            dump_number_of (fst (step_incremental_dump m w))) \<and>
   inc_dump step_get_score step_incremental_dump' step_train_step (\<lambda>epoch. [1 / 2, 1 / 4])
     ''ckpt'' 2 0 =
   (None, [MakeDirs ''ckpt'', GetScore 0,
           IncrementalDump 0 1, PrintBatch 1 2 0 2 (1 / 2) (Some 1), PrintEpoch 1 2 (3 / 8),
           IncrementalDump 1 3, PrintBatch 2 2 0 2 (1 / 2) (Some 2), PrintEpoch 2 2 (3 / 8)])"
  using inc_dump_only_counts_rows [of step_get_score step_incremental_dump step_train_step
      "\<lambda>epoch. [1 / 2, 1 / 4]" "''ckpt''" 2 0 step_incremental_dump']
    step_incremental_dump_same_counts
  by (simp only: inc_dump_run list_all_iff) simp

section \<open>The data set\<close>

lemma split_idx_5: "split_idx (Suc (Suc (Suc (Suc (Suc 0))))) = 4"
proof -
  have five: "Suc (Suc (Suc (Suc (Suc 0)))) = 5" by simp
  have "bit_length 18014398509481985 = 55" by (simp add: bit_length.simps)
  then have "round_sig53 18014398509481985 = 18014398509481984"
    by (simp add: round_sig53_def round_half_even_def Let_def)
  moreover have "round_sig53 5 = 5" by (rule round_sig53_exact) simp
  ultimately show ?thesis by (simp only: five split_idx_def) simp
qed


lemma sorted_take_drop:
  assumes "sorted (map f xs)" "a \<in> set (take k xs)" "b \<in> set (drop k xs)"
  shows "f a \<le> f b"
proof -
  have "sorted (map f (take k xs) @ map f (drop k xs))"
    using assms(1) by (simp flip: map_append)
  then show ?thesis using assms(2,3) by (auto simp: sorted_append)
qed

lemma MovieLensDataset_train:
  "MovieLensDataset sort_values joined ''train'' =
     take (split_idx (length (sort_values joined))) (sort_values joined)"
  by (simp add: MovieLensDataset_def Let_def)

lemma MovieLensDataset_test:
  "MovieLensDataset sort_values joined ''test'' =
     drop (split_idx (length (sort_values joined))) (sort_values joined)"
  by (simp add: MovieLensDataset_def Let_def)

text \<open>
  C6. After the sort by timestamp the 80/20 prefix split is temporally causal: the
  largest timestamp of the train rows is at most the smallest timestamp of the test
  rows, whenever both parts have rows.
\<close>

theorem split_is_temporally_causal:
  assumes "sorts_by_timestamp sort_values"
    and "train = MovieLensDataset sort_values joined ''train''"
    and "test = MovieLensDataset sort_values joined ''test''"
    and "train \<noteq> []" and "test \<noteq> []"
  shows "Max (timestamp ` set train) \<le> Min (timestamp ` set test)"
proof -
  let ?data = "sort_values joined"
  let ?k = "split_idx (length ?data)"
  have sorted: "sorted (map timestamp ?data)"
    using assms(1) by (simp add: sorts_by_timestamp_def)
  have train: "train = take ?k ?data" and test: "test = drop ?k ?data"
    using assms(2,3) by (simp_all add: MovieLensDataset_train MovieLensDataset_test)
  have "timestamp a \<le> timestamp b" if "a \<in> set train" "b \<in> set test" for a b
    using sorted_take_drop [OF sorted] that unfolding train test by blast
  then show ?thesis
    using assms(4,5) by (simp add: Max_le_iff Min_ge_iff)
qed

lemma sort_key_sorts_by_timestamp: "sorts_by_timestamp (sort_key timestamp)"
  by (simp add: sorts_by_timestamp_def)

theorem split_is_temporally_causal_witness:
  "sorts_by_timestamp (sort_key timestamp) \<and>
   MovieLensDataset (sort_key timestamp)
     [\<lparr>user_id = 1, movie_id = 10, rating = 5, timestamp = 30, gender = Some 1, age = Some 25,
        occupation = Some 4, year = Some 1995\<rparr>,
      \<lparr>user_id = 2, movie_id = 10, rating = 3, timestamp = 10, gender = Some 0, age = Some 35,
        occupation = Some 7, year = Some 1995\<rparr>,
      \<lparr>user_id = 1, movie_id = 11, rating = 4, timestamp = 20, gender = Some 1, age = Some 25,
        occupation = Some 4, year = None\<rparr>,
      \<lparr>user_id = 3, movie_id = 12, rating = 2, timestamp = 10, gender = None, age = None,
        occupation = None, year = Some 0\<rparr>,
      \<lparr>user_id = 2, movie_id = 12, rating = 1, timestamp = 40, gender = Some 0, age = Some 35,
        occupation = Some 7, year = Some 0\<rparr>] ''test''
   = [\<lparr>user_id = 2, movie_id = 12, rating = 1, timestamp = 40, gender = Some 0, age = Some 35,
        occupation = Some 7, year = Some 0\<rparr>] \<and>
   Max (timestamp ` set (MovieLensDataset (sort_key timestamp)
     [\<lparr>user_id = 1, movie_id = 10, rating = 5, timestamp = 30, gender = Some 1, age = Some 25,
        occupation = Some 4, year = Some 1995\<rparr>,
      \<lparr>user_id = 2, movie_id = 10, rating = 3, timestamp = 10, gender = Some 0, age = Some 35,
        occupation = Some 7, year = Some 1995\<rparr>,
      \<lparr>user_id = 1, movie_id = 11, rating = 4, timestamp = 20, gender = Some 1, age = Some 25,
        occupation = Some 4, year = None\<rparr>,
      \<lparr>user_id = 3, movie_id = 12, rating = 2, timestamp = 10, gender = None, age = None,
        occupation = None, year = Some 0\<rparr>,
      \<lparr>user_id = 2, movie_id = 12, rating = 1, timestamp = 40, gender = Some 0, age = Some 35,
        occupation = Some 7, year = Some 0\<rparr>] ''train'')) \<le> 40"
proof -
  let ?joined = "[\<lparr>user_id = 1, movie_id = 10, rating = 5, timestamp = 30, gender = Some 1, age = Some 25,
        occupation = Some 4, year = Some 1995\<rparr>,
      \<lparr>user_id = 2, movie_id = 10, rating = 3, timestamp = 10, gender = Some 0, age = Some 35,
        occupation = Some 7, year = Some 1995\<rparr>,
      \<lparr>user_id = 1, movie_id = 11, rating = 4, timestamp = 20, gender = Some 1, age = Some 25,
        occupation = Some 4, year = None\<rparr>,
      \<lparr>user_id = 3, movie_id = 12, rating = 2, timestamp = 10, gender = None, age = None,
        occupation = None, year = Some 0\<rparr>,
      \<lparr>user_id = 2, movie_id = 12, rating = 1, timestamp = 40, gender = Some 0, age = Some 35,
        occupation = Some 7, year = Some 0\<rparr>]"
  have test: "MovieLensDataset (sort_key timestamp) ?joined ''test''
    = [\<lparr>user_id = 2, movie_id = 12, rating = 1, timestamp = 40, gender = Some 0, age = Some 35,
        occupation = Some 7, year = Some 0\<rparr>]"
    by (simp add: MovieLensDataset_def split_idx_5)
  have train: "MovieLensDataset (sort_key timestamp) ?joined ''train'' \<noteq> []"
    by (simp add: MovieLensDataset_def split_idx_5)
  from split_is_temporally_causal [OF sort_key_sorts_by_timestamp refl refl train]
  have "Max (timestamp ` set (MovieLensDataset (sort_key timestamp) ?joined ''train''))
      \<le> Min (timestamp ` set (MovieLensDataset (sort_key timestamp) ?joined ''test''))"
    by (simp only: test) simp
  then show ?thesis
    using sort_key_sorts_by_timestamp by (simp only: test) simp
qed








section \<open>The command line and \<^verbatim>\<open>main\<close>\<close>

lemma decimal_7: "decimal ''7'' = Some 7"
  by (simp add: decimal_def digit_value_def)

lemma decimal_3: "decimal ''3'' = Some 3"
  by (simp add: decimal_def digit_value_def)

text \<open>Whether a process downloads is decided by its local rank alone.\<close>

lemma main_downloads_iff_local_rank_0:
  "MakeDataDir (arg_data_path args) \<in> set (main args global_rank fs) \<longleftrightarrow> arg_local_rank args = 0"
  by (simp add: main_def download_movielens_def)

text \<open>
  C8. The claim: \<^verbatim>\<open>download_movielens\<close> is invoked only in the process whose rank is 0,
  every other rank downloads nothing, and all ranks pass a barrier before any mode
  function. The barrier is there, but \<^verbatim>\<open>main\<close> tests \<^verbatim>\<open>args.local_rank\<close>, against its
  own comment, which names the global rank: the process of global rank 2 and local
  rank 0 (the first process of a second node) downloads the data set.
\<close>

theorem global_rank_2_downloads:
  "main \<lparr> arg_train = True, arg_load = False, arg_dump = False, arg_incremental_dump = False,
          arg_data_path = ''./ml-1m'', arg_epochs = 5, arg_batch_size = 1024,
          arg_lr = 5764607523034235 / 2 ^ 59, arg_embedding_dim = 64,
          arg_num_embeddings = 10000, arg_mlp_dims = ''128,64,32'',
          arg_save_dir = ''./model_checkpoints'', arg_seed = 42, arg_local_rank = 0,
          arg_local_world_size = 2, arg_node_rank = 2, arg_num_nodes = 2,
          arg_master_addr = ''localhost'', arg_master_port = ''29500'',
          arg_backend = ''nccl'' \<rparr>
     2 \<lparr> ratings_exists = False, extracted_elsewhere = False, extracted_dir_exists = True \<rparr>
   = [InitProcessGroup ''nccl'', SetDevice 0, SetupRankPrint 2, CudaManualSeed 42, NumpySeed 42,
      MakeDataDir ''./ml-1m'', UrlRetrieve ''./ml-1m'', ExtractAll, RemoveZip,
      Barrier, RunTrain, DestroyProcessGroup]"
  by (simp add: main_def download_movielens_def)

text \<open>
  C9. The claim: every listed flag takes its default from an environment variable
  when it is not given. With no flag given and every environment variable set to 7,
  the six launch parameters read the environment, and \<^verbatim>\<open>--epochs\<close>,
  \<^verbatim>\<open>--batch_size\<close>, \<^verbatim>\<open>--backend\<close> and the other seven keep their constants.
\<close>

theorem constants_ignore_environment:
  "parse_args decimal all_sevens no_flags =
     Inr \<lparr> arg_train = False, arg_load = False, arg_dump = False, arg_incremental_dump = False,
           arg_data_path = ''./ml-1m'', arg_epochs = 5, arg_batch_size = 1024,
           arg_lr = 5764607523034235 / 2 ^ 59, arg_embedding_dim = 64,
           arg_num_embeddings = 10000, arg_mlp_dims = ''128,64,32'',
           arg_save_dir = ''./model_checkpoints'', arg_seed = 42, arg_local_rank = 7,
           arg_local_world_size = 7, arg_node_rank = 7, arg_num_nodes = 7,
           arg_master_addr = ''7'', arg_master_port = ''7'', arg_backend = ''nccl'' \<rparr>"
  by (simp add: parse_args_def environ_int_def environ_get_def all_sevens_def no_flags_def
      given_or_def decimal_7)

text \<open>
  C9, as amended. When \<^verbatim>\<open>parse_args\<close> returns and a flag is not given:
  \<^verbatim>\<open>--local_rank\<close>, \<^verbatim>\<open>--local_world_size\<close>, \<^verbatim>\<open>--node_rank\<close> and \<^verbatim>\<open>--num_nodes\<close> are
  the integers read from \<^verbatim>\<open>LOCAL_RANK\<close>, \<^verbatim>\<open>LOCAL_WORLD_SIZE\<close>, \<^verbatim>\<open>RANK\<close> and
  \<^verbatim>\<open>PET_NNODES\<close> (0, 1, 0 and 1 when the variable is unset); \<^verbatim>\<open>--master_addr\<close> and
  \<^verbatim>\<open>--master_port\<close> are \<^verbatim>\<open>MASTER_ADDR\<close> and \<^verbatim>\<open>MASTER_PORT\<close> (\<^verbatim>\<open>localhost\<close> and
  \<^verbatim>\<open>29500\<close> when unset); the other ten flags have constant defaults, whatever the
  environment.
\<close>

theorem defaults_of_unset_flags:
  assumes "parse_args py_int environ argv = Inr args"
  shows "(flag_data_path argv = None \<longrightarrow> arg_data_path args = ''./ml-1m'') \<and>
         (flag_epochs argv = None \<longrightarrow> arg_epochs args = 5) \<and>
         (flag_batch_size argv = None \<longrightarrow> arg_batch_size args = 1024) \<and>
         (flag_lr argv = None \<longrightarrow> arg_lr args = 5764607523034235 / 2 ^ 59) \<and>
         (flag_embedding_dim argv = None \<longrightarrow> arg_embedding_dim args = 64) \<and>
         (flag_num_embeddings argv = None \<longrightarrow> arg_num_embeddings args = 10000) \<and>
         (flag_mlp_dims argv = None \<longrightarrow> arg_mlp_dims args = ''128,64,32'') \<and>
         (flag_save_dir argv = None \<longrightarrow> arg_save_dir args = ''./model_checkpoints'') \<and>
         (flag_seed argv = None \<longrightarrow> arg_seed args = 42) \<and>
         (flag_backend argv = None \<longrightarrow> arg_backend args = ''nccl'') \<and>
         (flag_local_rank argv = None \<longrightarrow>
            environ_int py_int environ ''LOCAL_RANK'' 0 = Inr (arg_local_rank args)) \<and>
         (flag_local_world_size argv = None \<longrightarrow>
            environ_int py_int environ ''LOCAL_WORLD_SIZE'' 1 = Inr (arg_local_world_size args)) \<and>
         (flag_node_rank argv = None \<longrightarrow>
            environ_int py_int environ ''RANK'' 0 = Inr (arg_node_rank args)) \<and>
         (flag_num_nodes argv = None \<longrightarrow>
            environ_int py_int environ ''PET_NNODES'' 1 = Inr (arg_num_nodes args)) \<and>
         (flag_master_addr argv = None \<longrightarrow>
            arg_master_addr args = environ_get environ ''MASTER_ADDR'' ''localhost'') \<and>
         (flag_master_port argv = None \<longrightarrow>
            arg_master_port args = environ_get environ ''MASTER_PORT'' ''29500'')"
proof -
  obtain local_rank local_world_size node_rank num_nodes where
    env: "environ_int py_int environ ''LOCAL_RANK'' 0 = Inr local_rank"
      "environ_int py_int environ ''LOCAL_WORLD_SIZE'' 1 = Inr local_world_size"
      "environ_int py_int environ ''RANK'' 0 = Inr node_rank"
      "environ_int py_int environ ''PET_NNODES'' 1 = Inr num_nodes"
    using assms by (auto simp: parse_args_def split: sum.splits)
  from assms show ?thesis
    unfolding parse_args_def env sum.case
    by (auto simp: given_or_def)
qed

theorem defaults_of_unset_flags_witness:
  "parse_args decimal [''LOCAL_RANK'' \<mapsto> ''3'', ''MASTER_ADDR'' \<mapsto> ''node0''] no_flags =
     Inr \<lparr> arg_train = False, arg_load = False, arg_dump = False, arg_incremental_dump = False,
           arg_data_path = ''./ml-1m'', arg_epochs = 5, arg_batch_size = 1024,
           arg_lr = 5764607523034235 / 2 ^ 59, arg_embedding_dim = 64,
           arg_num_embeddings = 10000, arg_mlp_dims = ''128,64,32'',
           arg_save_dir = ''./model_checkpoints'', arg_seed = 42, arg_local_rank = 3,
           arg_local_world_size = 1, arg_node_rank = 0, arg_num_nodes = 1,
           arg_master_addr = ''node0'', arg_master_port = ''29500'', arg_backend = ''nccl'' \<rparr> \<and>
   environ_int decimal [''LOCAL_RANK'' \<mapsto> ''3'', ''MASTER_ADDR'' \<mapsto> ''node0''] ''LOCAL_RANK'' 0
     = Inr 3 \<and>
   environ_int decimal [''LOCAL_RANK'' \<mapsto> ''3'', ''MASTER_ADDR'' \<mapsto> ''node0''] ''PET_NNODES'' 1
     = Inr 1 \<and>
   environ_get [''LOCAL_RANK'' \<mapsto> ''3'', ''MASTER_ADDR'' \<mapsto> ''node0''] ''MASTER_ADDR'' ''localhost''
     = ''node0''"
proof -
  let ?env = "[''LOCAL_RANK'' \<mapsto> ''3'', ''MASTER_ADDR'' \<mapsto> ''node0'']"
  let ?args = "\<lparr> arg_train = False, arg_load = False, arg_dump = False, arg_incremental_dump = False,
           arg_data_path = ''./ml-1m'', arg_epochs = 5, arg_batch_size = 1024,
           arg_lr = 5764607523034235 / 2 ^ 59, arg_embedding_dim = 64,
           arg_num_embeddings = 10000, arg_mlp_dims = ''128,64,32'',
           arg_save_dir = ''./model_checkpoints'', arg_seed = 42, arg_local_rank = 3,
           arg_local_world_size = 1, arg_node_rank = 0, arg_num_nodes = 1,
           arg_master_addr = ''node0'', arg_master_port = ''29500'', arg_backend = ''nccl'' \<rparr>"
  have run: "parse_args decimal ?env no_flags = Inr ?args"
    by (simp add: parse_args_def environ_int_def environ_get_def no_flags_def given_or_def
        decimal_3)
  from defaults_of_unset_flags [OF run] run show ?thesis
    by (simp add: no_flags_def)
qed

end
